theory Spec2Isabelle
  imports
    Complex_Main
    "HOL-Library.Word"
    "HOL-Library.Sublist"
    "HOL-Library.Multiset"
begin

unbundle bit_operations_syntax

chapter \<open>PharmaFlow frontend: offline queue, cache store and realtime channel\<close>

text \<open>
  A shallow embedding of the three Redux slices and their service classes:
  the offline operation queue (\<open>offlineQueueSlice\<close>, \<open>OfflineSyncService\<close>), the cache
  (\<open>cacheSlice\<close>, \<open>PharmaceuticalCacheService\<close>) and the WebSocket channel
  (\<open>webSocketSlice\<close>, \<open>PharmaceuticalWebSocketService\<close>).

  Conventions of the embedding.
  \<^item> A reducer is a function from the slice state (and the action payload) to the new
    slice state; \<open>dispatch\<close> is function application.
  \<^item> A point in time (\<open>new Date()\<close>, \<open>Date.now()\<close>, an ISO timestamp string) is an
    \<open>int\<close>, the milliseconds since the epoch; the clock is a parameter \<open>now\<close>.
  \<^item> An untyped payload (\<open>data: any\<close>) is represented by the text that
    \<open>JSON.stringify\<close> produces for it: a plain string in the queue, which never reads
    it, and the list of its UTF-16 code units in the cache, which hashes and measures it.
  \<^item> JavaScript numbers are integers or rationals computed exactly; the rounding of
    doubles is not modelled.
  \<^item> What the platform decides (the answer of \<open>fetch\<close>, the identifier drawn by
    \<open>generateQueueId\<close>, the token in \<open>localStorage\<close>) is a parameter.
  \<^item> The enumerations of the three modules share member names (\<open>CRITICAL\<close>,
    \<open>ERROR\<close>, \<open>LOW\<close>, ...); the constructors carry the enumeration's name as a prefix.
\<close>

section \<open>Strings\<close>

text \<open>\<open>String.prototype.startsWith\<close> and \<open>String.prototype.includes\<close> (case-sensitive).\<close>

fun startsWith :: "string \<Rightarrow> string \<Rightarrow> bool" where
  "startsWith s [] = True"
| "startsWith [] (p # ps) = False"
| "startsWith (c # cs) (p # ps) = (c = p \<and> startsWith cs ps)"

fun includes_str :: "string \<Rightarrow> string \<Rightarrow> bool" where
  "includes_str [] p = (p = [])"
| "includes_str (c # cs) p = (startsWith (c # cs) p \<or> includes_str cs p)"

text \<open>Decimal rendering of a number, as a template literal does it.\<close>

definition digit_char :: "nat \<Rightarrow> char" where
  "digit_char d = ''0123456789'' ! d"

fun show_nat :: "nat \<Rightarrow> string" where
  "show_nat n = (if n < 10 then [digit_char n] else show_nat (n div 10) @ [digit_char (n mod 10)])"

declare show_nat.simps [simp del]

section \<open>Offline queue: data model\<close>

datatype OfflineOperationType =
    CREATE_CUSTOMER
  | UPDATE_CUSTOMER
  | UPDATE_CUSTOMER_TIER
  | ASSIGN_TERRITORY
  | CREATE_DGDA_SUBMISSION
  | UPDATE_SUBMISSION_STATUS
  | UPLOAD_DOCUMENT
  | RECORD_CAMPAIGN_INTERACTION
  | UPDATE_CAMPAIGN_STATUS
  | LOG_MARKETING_ACTIVITY
  | SYNC_ANALYTICS_DATA
  | UPDATE_PERFORMANCE_METRICS
  | LOG_AUDIT_ENTRY

text \<open>The string each member of the enum stands for at run time.\<close>

fun operation_type_value :: "OfflineOperationType \<Rightarrow> string" where
  "operation_type_value CREATE_CUSTOMER = ''create_customer''"
| "operation_type_value UPDATE_CUSTOMER = ''update_customer''"
| "operation_type_value UPDATE_CUSTOMER_TIER = ''update_customer_tier''"
| "operation_type_value ASSIGN_TERRITORY = ''assign_territory''"
| "operation_type_value CREATE_DGDA_SUBMISSION = ''create_dgda_submission''"
| "operation_type_value UPDATE_SUBMISSION_STATUS = ''update_submission_status''"
| "operation_type_value UPLOAD_DOCUMENT = ''upload_document''"
| "operation_type_value RECORD_CAMPAIGN_INTERACTION = ''record_campaign_interaction''"
| "operation_type_value UPDATE_CAMPAIGN_STATUS = ''update_campaign_status''"
| "operation_type_value LOG_MARKETING_ACTIVITY = ''log_marketing_activity''"
| "operation_type_value SYNC_ANALYTICS_DATA = ''sync_analytics_data''"
| "operation_type_value UPDATE_PERFORMANCE_METRICS = ''update_performance_metrics''"
| "operation_type_value LOG_AUDIT_ENTRY = ''log_audit_entry''"

datatype OperationPriority = Op_LOW | Op_MEDIUM | Op_HIGH | Op_CRITICAL

fun priority_value :: "OperationPriority \<Rightarrow> nat" where
  "priority_value Op_LOW = 1"
| "priority_value Op_MEDIUM = 2"
| "priority_value Op_HIGH = 3"
| "priority_value Op_CRITICAL = 4"

datatype HttpMethod = GET | POST | PUT | DELETE | PATCH

record DgdaContext =
  submissionId :: "string option"
  documentId :: "string option"
  complianceRequired :: "bool option"

record AuditTrail =
  userId :: string
  action :: string
  businessJustification :: "string option"
  customerContext :: "string option"

record OfflineQueueItem =
  item_id :: string
  type :: OfflineOperationType
  priority :: OperationPriority
  data :: string
  endpoint :: string
  http_method :: HttpMethod
  headers :: "(string \<times> string) list option"
  createdAt :: int
  lastAttempt :: "int option"
  attemptCount :: nat
  maxAttempts :: nat
  error :: "string option"
  dependencies :: "string list option"
  dgdaContext :: "DgdaContext option"
  auditTrail :: "AuditTrail option"

datatype SyncStatus = Sync_OFFLINE | Sync_SYNCING | Sync_ONLINE | Sync_ERROR

datatype ConflictStrategy = server_wins | client_wins | manual

record Conflict =
  conflict_id :: string
  clientData :: string
  serverData :: "string option"
  conflictType :: string

record ConflictResolution =
  strategy :: ConflictStrategy
  conflicts :: "Conflict list"

record DataIntegrity =
  checksumEnabled :: bool
  lastIntegrityCheck :: "int option"
  corruptedItems :: "string list"

record OfflineQueueState =
  items :: "OfflineQueueItem list"
  syncStatus :: SyncStatus
  lastSyncAttempt :: "int option"
  lastSuccessfulSync :: "int option"
  isAutoSyncEnabled :: bool
  syncInProgress :: bool
  connectionRetryCount :: nat
  maxConnectionRetries :: nat
  pendingUploads :: "string list"
  conflictResolution :: ConflictResolution
  dataIntegrity :: DataIntegrity

definition queue_initialState :: OfflineQueueState where
  "queue_initialState =
     \<lparr> items = [], syncStatus = Sync_OFFLINE, lastSyncAttempt = None,
       lastSuccessfulSync = None, isAutoSyncEnabled = True, syncInProgress = False,
       connectionRetryCount = 0, maxConnectionRetries = 3, pendingUploads = [],
       conflictResolution = \<lparr> strategy = server_wins, conflicts = [] \<rparr>,
       dataIntegrity = \<lparr> checksumEnabled = True, lastIntegrityCheck = None,
                         corruptedItems = [] \<rparr> \<rparr>"

section \<open>Offline queue: priority and enqueue\<close>

text \<open>
  \<open>context?.dgdaContext?.complianceRequired\<close>: truthy exactly when the context is there
  and its flag is \<open>true\<close>.
\<close>

definition compliance_flag :: "DgdaContext option \<Rightarrow> bool" where
  "compliance_flag ctx = (case ctx of None \<Rightarrow> False | Some c \<Rightarrow> complianceRequired c = Some True)"

text \<open>
  \<open>calculatePriority\<close>. The tests are \<open>type.includes('DGDA')\<close>, \<open>type.includes('CUSTOMER')\<close>,
  \<open>type.includes('ANALYTICS')\<close> and \<open>type.includes('METRICS')\<close>, on the run-time string of
  the enum member.
\<close>

definition calculatePriority :: "OfflineOperationType \<Rightarrow> DgdaContext option \<Rightarrow> OperationPriority" where
  "calculatePriority t ctx =
     (if includes_str (operation_type_value t) ''DGDA'' \<or> compliance_flag ctx then Op_CRITICAL
      else if includes_str (operation_type_value t) ''CUSTOMER'' then Op_HIGH
      else if includes_str (operation_type_value t) ''ANALYTICS''
              \<or> includes_str (operation_type_value t) ''METRICS'' then Op_LOW
      else Op_MEDIUM)"

record AddToQueuePayload =
  p_type :: OfflineOperationType
  p_data :: string
  p_endpoint :: string
  p_method :: HttpMethod
  p_headers :: "(string \<times> string) list option"
  p_dependencies :: "string list option"
  p_dgdaContext :: "DgdaContext option"
  p_auditTrail :: "AuditTrail option"

text \<open>\<open>Array.prototype.findIndex\<close>: \<open>None\<close> stands for \<open>-1\<close>.\<close>

fun findIndex :: "('a \<Rightarrow> bool) \<Rightarrow> 'a list \<Rightarrow> nat option" where
  "findIndex P [] = None"
| "findIndex P (x # xs) =
     (if P x then Some 0 else (case findIndex P xs of None \<Rightarrow> None | Some i \<Rightarrow> Some (Suc i)))"

text \<open>
  The item \<open>addToQueue\<close> builds. \<open>new_id\<close> is what \<open>generateQueueId()\<close> returns and
  \<open>now\<close> the clock.
\<close>

definition new_queue_item :: "string \<Rightarrow> int \<Rightarrow> AddToQueuePayload \<Rightarrow> OfflineQueueItem" where
  "new_queue_item new_id now p =
     \<lparr> item_id = new_id, type = p_type p,
       priority = calculatePriority (p_type p) (p_dgdaContext p),
       data = p_data p, endpoint = p_endpoint p, http_method = p_method p,
       headers = p_headers p, createdAt = now, lastAttempt = None,
       attemptCount = 0, maxAttempts = 3, error = None,
       dependencies = p_dependencies p, dgdaContext = p_dgdaContext p,
       auditTrail = p_auditTrail p \<rparr>"

definition addToQueue :: "string \<Rightarrow> int \<Rightarrow> AddToQueuePayload \<Rightarrow> OfflineQueueState \<Rightarrow> OfflineQueueState" where
  "addToQueue new_id now p state =
     (let queueItem = new_queue_item new_id now p in
      case findIndex (\<lambda>item. priority_value (priority item) < priority_value (priority queueItem))
             (items state) of
        None \<Rightarrow> state\<lparr>items := items state @ [queueItem]\<rparr>
      | Some insertIndex \<Rightarrow>
          state\<lparr>items := take insertIndex (items state) @ [queueItem]
                            @ drop insertIndex (items state)\<rparr>)"

section \<open>Offline queue: statistics\<close>

record QueueStats =
  totalItems :: nat
  pendingItems :: nat
  criticalItems :: nat
  oldestItem :: "int option"

text \<open>\<open>items.reduce(f)\<close> without an initial value, on a list that is not empty.\<close>

definition oldest_of :: "OfflineQueueItem \<Rightarrow> OfflineQueueItem list \<Rightarrow> OfflineQueueItem" where
  "oldest_of first rest =
     foldl (\<lambda>oldest current. if createdAt current < createdAt oldest then current else oldest)
       first rest"

definition getQueueStats :: "OfflineQueueState \<Rightarrow> QueueStats" where
  "getQueueStats state =
     \<lparr> totalItems = length (items state),
       pendingItems = length (filter (\<lambda>item. attemptCount item = 0) (items state)),
       criticalItems = length (filter (\<lambda>item. priority item = Op_CRITICAL) (items state)),
       oldestItem = (case items state of [] \<Rightarrow> None
                     | first # rest \<Rightarrow> Some (createdAt (oldest_of first rest))) \<rparr>"

section \<open>Offline queue: reducers used by the synchronizer\<close>

definition removeFromQueue :: "string \<Rightarrow> OfflineQueueState \<Rightarrow> OfflineQueueState" where
  "removeFromQueue i state = state\<lparr>items := filter (\<lambda>item. item_id item \<noteq> i) (items state)\<rparr>"

record UpdateQueueItemPayload =
  u_id :: string
  u_attemptCount :: "nat option"
  u_error :: "string option"
  u_lastAttempt :: "int option"

text \<open>\<open>items.find(pred)\<close> followed by an in-place change of the item found (the first match).\<close>

fun update_first :: "('a \<Rightarrow> bool) \<Rightarrow> ('a \<Rightarrow> 'a) \<Rightarrow> 'a list \<Rightarrow> 'a list" where
  "update_first P f [] = []"
| "update_first P f (x # xs) = (if P x then f x # xs else x # update_first P f xs)"

definition apply_update :: "UpdateQueueItemPayload \<Rightarrow> OfflineQueueItem \<Rightarrow> OfflineQueueItem" where
  "apply_update u item =
     (let item1 = (case u_attemptCount u of None \<Rightarrow> item | Some n \<Rightarrow> item\<lparr>attemptCount := n\<rparr>);
          item2 = (case u_error u of None \<Rightarrow> item1 | Some e \<Rightarrow> item1\<lparr>error := Some e\<rparr>)
      in (case u_lastAttempt u of None \<Rightarrow> item2 | Some t \<Rightarrow> item2\<lparr>lastAttempt := Some t\<rparr>))"

definition updateQueueItem :: "UpdateQueueItemPayload \<Rightarrow> OfflineQueueState \<Rightarrow> OfflineQueueState" where
  "updateQueueItem u state =
     state\<lparr>items := update_first (\<lambda>item. item_id item = u_id u) (apply_update u) (items state)\<rparr>"

definition setSyncStatus :: "int \<Rightarrow> SyncStatus \<Rightarrow> OfflineQueueState \<Rightarrow> OfflineQueueState" where
  "setSyncStatus now status state =
     (let state1 = state\<lparr>syncStatus := status\<rparr> in
      if status = Sync_SYNCING
      then state1\<lparr>syncInProgress := True, lastSyncAttempt := Some now\<rparr>
      else (let state2 = state1\<lparr>syncInProgress := False\<rparr> in
            if status = Sync_ONLINE
            then state2\<lparr>lastSuccessfulSync := Some now, connectionRetryCount := 0\<rparr>
            else state2))"



definition addConflict :: "Conflict \<Rightarrow> OfflineQueueState \<Rightarrow> OfflineQueueState" where
  "addConflict c state =
     state\<lparr>conflictResolution :=
       (conflictResolution state)\<lparr>conflicts := conflicts (conflictResolution state) @ [c]\<rparr>\<rparr>"

definition markAsCorrupted :: "string \<Rightarrow> OfflineQueueState \<Rightarrow> OfflineQueueState" where
  "markAsCorrupted i state =
     (if i \<in> set (corruptedItems (dataIntegrity state)) then state
      else state\<lparr>dataIntegrity :=
             (dataIntegrity state)\<lparr>corruptedItems := corruptedItems (dataIntegrity state) @ [i]\<rparr>\<rparr>)"

definition clearQueue :: "OfflineQueueState \<Rightarrow> OfflineQueueState" where
  "clearQueue state =
     state\<lparr>items := [], pendingUploads := [],
           conflictResolution := (conflictResolution state)\<lparr>conflicts := []\<rparr>,
           dataIntegrity := (dataIntegrity state)\<lparr>corruptedItems := []\<rparr>\<rparr>"

section \<open>Offline queue: the synchronizer\<close>

text \<open>
  What the network answers during one drain pass.
  \<^item> \<open>probe\<close>: the request to the health endpoint answers with \<open>response.ok\<close>, answers
    with another status, or is rejected.
  \<^item> \<open>fetch\<close>: the request of a queued operation is rejected (with an \<open>Error\<close> carrying
    a message, or with a value that is no \<open>Error\<close>), or answers with a status and a body.
    The body read by \<open>response.json().catch(() => ({}))\<close> gives \<open>errorData.message\<close> and
    \<open>errorData.serverData\<close> (each possibly undefined), or is \<open>null\<close>, where reading a
    property throws a \<open>TypeError\<close> with the engine's message.
  One pass is modelled as one uninterrupted run: its awaits are not interleaved with
  other reducers or with a second pass.
\<close>

datatype ProbeResult = Probe_ok | Probe_not_ok | Probe_rejected

datatype ErrorData = ErrorData "string option" "string option" | NullData string

datatype FetchResult = Responded nat ErrorData | Rejected "string option"

datatype Thrown = ErrorObj string | OtherThrown

record SyncEnv =
  clock :: int
  probe :: ProbeResult
  fetch :: "OfflineQueueItem \<Rightarrow> FetchResult"

definition response_ok :: "nat \<Rightarrow> bool" where
  "response_ok status = (200 \<le> status \<and> status \<le> 299)"


text \<open>
  \<open>processQueueItem\<close>: the first component is what the function throws, if it throws.
\<close>

definition processQueueItem ::
  "SyncEnv \<Rightarrow> OfflineQueueItem \<Rightarrow> OfflineQueueState \<Rightarrow> Thrown option \<times> OfflineQueueState" where
  "processQueueItem env item state =
     (case fetch env item of
        Rejected None \<Rightarrow> (Some OtherThrown, state)
      | Rejected (Some m) \<Rightarrow> (Some (ErrorObj m), state)
      | Responded status body \<Rightarrow>
          if response_ok status then (None, removeFromQueue (item_id item) state)
          else (case body of
                  NullData type_error \<Rightarrow> (Some (ErrorObj type_error), state)
                | ErrorData message server_data \<Rightarrow>
                    (Some (ErrorObj (''HTTP '' @ show_nat status @ '': '' @
                       (case message of None \<Rightarrow> ''Request failed''
                        | Some m \<Rightarrow> if m = [] then ''Request failed'' else m))),
                     if status = 409
                     then addConflict \<lparr> conflict_id = item_id item, clientData = data item,
                                        serverData = server_data,
                                        conflictType = ''data_conflict'' \<rparr> state
                     else state)))"

text \<open>The body of the loop of \<open>processBatch\<close>; \<open>item\<close> is the item of the snapshot.\<close>

definition process_item :: "SyncEnv \<Rightarrow> OfflineQueueItem \<Rightarrow> OfflineQueueState \<Rightarrow> OfflineQueueState" where
  "process_item env item state =
     (case processQueueItem env item state of
        (None, state1) \<Rightarrow> state1
      | (Some thrown, state1) \<Rightarrow>
          (let state2 = updateQueueItem
                 \<lparr> u_id = item_id item, u_attemptCount = Some (attemptCount item + 1),
                   u_error = Some (case thrown of ErrorObj m \<Rightarrow> m | OtherThrown \<Rightarrow> ''Unknown error''),
                   u_lastAttempt = Some (clock env) \<rparr> state1
           in if attemptCount item + 1 \<ge> maxAttempts item
              then markAsCorrupted (item_id item) (removeFromQueue (item_id item) state2)
              else state2))"

fun processBatch :: "SyncEnv \<Rightarrow> OfflineQueueItem list \<Rightarrow> OfflineQueueState \<Rightarrow> OfflineQueueState" where
  "processBatch env [] state = state"
| "processBatch env (item # batch) state = processBatch env batch (process_item env item state)"

text \<open>
  \<open>Array.prototype.sort\<close> with a comparator: a stable sort (ECMAScript 2019), written as
  an insertion sort. The element \<open>x\<close> comes before the first \<open>y\<close> with \<open>cmp x y \<le> 0\<close>.
\<close>

fun insert_by :: "('a \<Rightarrow> 'a \<Rightarrow> int) \<Rightarrow> 'a \<Rightarrow> 'a list \<Rightarrow> 'a list" where
  "insert_by cmp x [] = [x]"
| "insert_by cmp x (y # ys) = (if cmp x y \<le> 0 then x # y # ys else y # insert_by cmp x ys)"

fun sort_by :: "('a \<Rightarrow> 'a \<Rightarrow> int) \<Rightarrow> 'a list \<Rightarrow> 'a list" where
  "sort_by cmp [] = []"
| "sort_by cmp (x # xs) = insert_by cmp x (sort_by cmp xs)"














section \<open>Realtime channel: data model and reducers\<close>

datatype WebSocketStatus =
  WS_DISCONNECTED | WS_CONNECTING | WS_CONNECTED | WS_RECONNECTING | WS_ERROR

datatype PharmaceuticalEventType =
    DGDA_SUBMISSION_STATUS_CHANGE
  | DGDA_DOCUMENT_APPROVED
  | DGDA_COMPLIANCE_DEADLINE
  | CUSTOMER_TIER_UPDATED
  | CUSTOMER_TERRITORY_CHANGED
  | CUSTOMER_COMPLIANCE_STATUS
  | CAMPAIGN_STATUS_CHANGE
  | CAMPAIGN_APPROVAL_UPDATE
  | CAMPAIGN_PERFORMANCE_ALERT
  | TERRITORY_ASSIGNMENT_CHANGE
  | TERRITORY_PERFORMANCE_UPDATE
  | SYSTEM_MAINTENANCE
  | AUDIT_TRAIL_UPDATE

fun event_type_value :: "PharmaceuticalEventType \<Rightarrow> string" where
  "event_type_value DGDA_SUBMISSION_STATUS_CHANGE = ''dgda_submission_status_change''"
| "event_type_value DGDA_DOCUMENT_APPROVED = ''dgda_document_approved''"
| "event_type_value DGDA_COMPLIANCE_DEADLINE = ''dgda_compliance_deadline''"
| "event_type_value CUSTOMER_TIER_UPDATED = ''customer_tier_updated''"
| "event_type_value CUSTOMER_TERRITORY_CHANGED = ''customer_territory_changed''"
| "event_type_value CUSTOMER_COMPLIANCE_STATUS = ''customer_compliance_status''"
| "event_type_value CAMPAIGN_STATUS_CHANGE = ''campaign_status_change''"
| "event_type_value CAMPAIGN_APPROVAL_UPDATE = ''campaign_approval_update''"
| "event_type_value CAMPAIGN_PERFORMANCE_ALERT = ''campaign_performance_alert''"
| "event_type_value TERRITORY_ASSIGNMENT_CHANGE = ''territory_assignment_change''"
| "event_type_value TERRITORY_PERFORMANCE_UPDATE = ''territory_performance_update''"
| "event_type_value SYSTEM_MAINTENANCE = ''system_maintenance''"
| "event_type_value AUDIT_TRAIL_UPDATE = ''audit_trail_update''"

text \<open>
  A parsed message. The type tag is whatever string the server sent; the optional nested
  objects are carried along unread, as their JSON text.
\<close>

record PharmaceuticalWebSocketMessage =
  ws_type :: string
  ws_payload :: string
  ws_timestamp :: string
  ws_userId :: "string option"
  ws_tenantId :: "string option"
  ws_dgdaContext :: "string option"
  ws_auditTrail :: "string option"

record WebSocketState =
  status :: WebSocketStatus
  lastConnected :: "int option"
  reconnectAttempts :: nat
  maxReconnectAttempts :: nat
  events :: "PharmaceuticalWebSocketMessage list"
  subscriptions :: "string list"
  ws_error :: "string option"

definition ws_initialState :: WebSocketState where
  "ws_initialState =
     \<lparr> status = WS_DISCONNECTED, lastConnected = None, reconnectAttempts = 0,
       maxReconnectAttempts = 5, events = [], subscriptions = [], ws_error = None \<rparr>"

definition connectionStarted :: "WebSocketState \<Rightarrow> WebSocketState" where
  "connectionStarted state = state\<lparr>status := WS_CONNECTING, ws_error := None\<rparr>"

definition connectionEstablished :: "int \<Rightarrow> WebSocketState \<Rightarrow> WebSocketState" where
  "connectionEstablished now state =
     state\<lparr>status := WS_CONNECTED, lastConnected := Some now, reconnectAttempts := 0,
           ws_error := None\<rparr>"

definition connectionLost :: "string \<Rightarrow> WebSocketState \<Rightarrow> WebSocketState" where
  "connectionLost e state = state\<lparr>status := WS_DISCONNECTED, ws_error := Some e\<rparr>"

definition reconnecting :: "WebSocketState \<Rightarrow> WebSocketState" where
  "reconnecting state =
     state\<lparr>status := WS_RECONNECTING, reconnectAttempts := reconnectAttempts state + 1\<rparr>"

definition connectionError :: "string \<Rightarrow> WebSocketState \<Rightarrow> WebSocketState" where
  "connectionError e state = state\<lparr>status := WS_ERROR, ws_error := Some e\<rparr>"

definition eventReceived :: "PharmaceuticalWebSocketMessage \<Rightarrow> WebSocketState \<Rightarrow> WebSocketState" where
  "eventReceived m state =
     (let state1 = state\<lparr>events := m # events state\<rparr> in
      if length (events state1) > 100 then state1\<lparr>events := take 100 (events state1)\<rparr>
      else state1)"

definition subscriptionAdded :: "string \<Rightarrow> WebSocketState \<Rightarrow> WebSocketState" where
  "subscriptionAdded ch state =
     (if ch \<in> set (subscriptions state) then state
      else state\<lparr>subscriptions := subscriptions state @ [ch]\<rparr>)"

definition subscriptionRemoved :: "string \<Rightarrow> WebSocketState \<Rightarrow> WebSocketState" where
  "subscriptionRemoved ch state =
     state\<lparr>subscriptions := filter (\<lambda>sub. sub \<noteq> ch) (subscriptions state)\<rparr>"

definition eventsCleared :: "WebSocketState \<Rightarrow> WebSocketState" where
  "eventsCleared state = state\<lparr>events := []\<rparr>"

section \<open>Realtime channel: the service\<close>

text \<open>
  The service object together with the slice its \<open>dispatch\<close> updates.
  \<^item> \<open>ws\<close>: \<open>this.ws\<close>, \<open>None\<close> for \<open>null\<close>, otherwise the socket's \<open>readyState\<close>;
  \<^item> \<open>reconnectTimer\<close>, \<open>heartbeatTimer\<close>: whether the timer handle is set;
  \<^item> \<open>sent\<close>: the messages handed to \<open>ws.send\<close>, oldest first;
  \<^item> \<open>slice\<close>: the \<open>webSocket\<close> slice of the store.
  The passing of time is the firing of a timer: the five seconds of the reconnect delay
  are the step from \<open>scheduleReconnect\<close> to \<open>reconnect_timer_fires\<close>.
\<close>

datatype ReadyState = RS_CONNECTING | RS_OPEN | RS_CLOSING | RS_CLOSED

datatype ControlMessage = Subscribe "string list" | Unsubscribe "string list" | Ping

record Channel =
  ws :: "ReadyState option"
  reconnectTimer :: bool
  heartbeatTimer :: bool
  sent :: "ControlMessage list"
  slice :: WebSocketState

definition channel_initial :: Channel where
  "channel_initial =
     \<lparr> ws = None, reconnectTimer = False, heartbeatTimer = False, sent = [],
       slice = ws_initialState \<rparr>"

definition dispatch :: "(WebSocketState \<Rightarrow> WebSocketState) \<Rightarrow> Channel \<Rightarrow> Channel" where
  "dispatch reducer c = c\<lparr>slice := reducer (slice c)\<rparr>"

definition send :: "ControlMessage \<Rightarrow> Channel \<Rightarrow> Channel" where
  "send m c = (if ws c = Some RS_OPEN then c\<lparr>sent := sent c @ [m]\<rparr> else c)"

text \<open>
  \<open>connect\<close>. \<open>ctor\<close> is what \<open>new WebSocket(wsUrl)\<close> throws, \<open>None\<close> when it returns a
  socket (then in state CONNECTING).
\<close>

definition connect :: "Thrown option \<Rightarrow> string \<Rightarrow> Channel \<Rightarrow> Channel" where
  "connect ctor token c =
     (if ws c = Some RS_OPEN then c
      else (let c1 = dispatch connectionStarted c in
            case ctor of
              None \<Rightarrow> c1\<lparr>ws := Some RS_CONNECTING\<rparr>
            | Some (ErrorObj m) \<Rightarrow> dispatch (connectionError m) c1
            | Some OtherThrown \<Rightarrow> dispatch (connectionError ''Connection failed'') c1))"

definition disconnect :: "Channel \<Rightarrow> Channel" where
  "disconnect c = c\<lparr>reconnectTimer := False, heartbeatTimer := False, ws := None\<rparr>"

definition subscribe :: "string list \<Rightarrow> Channel \<Rightarrow> Channel" where
  "subscribe channels c =
     (if ws c = Some RS_OPEN
      then fold (\<lambda>channel. dispatch (subscriptionAdded channel)) channels
             (send (Subscribe channels) c)
      else c)"

definition unsubscribe :: "string list \<Rightarrow> Channel \<Rightarrow> Channel" where
  "unsubscribe channels c =
     (if ws c = Some RS_OPEN
      then fold (\<lambda>channel. dispatch (subscriptionRemoved channel)) channels
             (send (Unsubscribe channels) c)
      else c)"

definition startHeartbeat :: "Channel \<Rightarrow> Channel" where
  "startHeartbeat c = c\<lparr>heartbeatTimer := True\<rparr>"

definition stopHeartbeat :: "Channel \<Rightarrow> Channel" where
  "stopHeartbeat c = (if heartbeatTimer c then c\<lparr>heartbeatTimer := False\<rparr> else c)"

definition handleOpen :: "int \<Rightarrow> Channel \<Rightarrow> Channel" where
  "handleOpen now c = startHeartbeat (dispatch (connectionEstablished now) c)"

text \<open>The type tags the \<open>switch\<close> of \<open>handleMessage\<close> lists, in its order.\<close>

definition handled_event_types :: "PharmaceuticalEventType list" where
  "handled_event_types =
     [DGDA_SUBMISSION_STATUS_CHANGE, DGDA_DOCUMENT_APPROVED, DGDA_COMPLIANCE_DEADLINE,
      CUSTOMER_TIER_UPDATED, CUSTOMER_TERRITORY_CHANGED, CAMPAIGN_STATUS_CHANGE,
      TERRITORY_ASSIGNMENT_CHANGE, AUDIT_TRAIL_UPDATE]"

text \<open>
  \<open>handleMessage\<close>. The argument is the result of \<open>JSON.parse(event.data)\<close>, \<open>None\<close> when
  parsing (or reading the type tag) throws, which the \<open>catch\<close> swallows.
\<close>

definition handleMessage :: "PharmaceuticalWebSocketMessage option \<Rightarrow> Channel \<Rightarrow> Channel" where
  "handleMessage parsed c =
     (case parsed of
        None \<Rightarrow> c
      | Some message \<Rightarrow>
          if ws_type message \<in> set (map event_type_value handled_event_types)
          then dispatch (eventReceived message) c
          else c)"

definition scheduleReconnect :: "Channel \<Rightarrow> Channel" where
  "scheduleReconnect c =
     (if reconnectTimer c then c
      else (dispatch reconnecting c)\<lparr>reconnectTimer := True\<rparr>)"

definition handleClose :: "nat \<Rightarrow> string \<Rightarrow> Channel \<Rightarrow> Channel" where
  "handleClose code reason c =
     (let c1 = dispatch (connectionLost (''Connection closed: '' @
                  (if reason = [] then ''Unknown reason'' else reason))) c;
          c2 = stopHeartbeat c1
      in if code \<noteq> 1000 then scheduleReconnect c2 else c2)"

definition handleError :: "Channel \<Rightarrow> Channel" where
  "handleError c = dispatch (connectionError ''WebSocket connection error'') c"


text \<open>
  The socket held in \<open>this.ws\<close> fires its events: the browser sets \<open>readyState\<close> and then
  calls the handler bound in \<open>connect\<close>.
\<close>

definition ws_open_event :: "int \<Rightarrow> Channel \<Rightarrow> Channel" where
  "ws_open_event now c = handleOpen now (c\<lparr>ws := map_option (\<lambda>r. RS_OPEN) (ws c)\<rparr>)"

definition ws_close_event :: "nat \<Rightarrow> string \<Rightarrow> Channel \<Rightarrow> Channel" where
  "ws_close_event code reason c =
     handleClose code reason (c\<lparr>ws := map_option (\<lambda>r. RS_CLOSED) (ws c)\<rparr>)"

text \<open>A channel after \<open>connect\<close> and the socket's \<open>open\<close> event.\<close>

definition open_channel :: Channel where
  "open_channel = ws_open_event 10 (connect None ''t'' channel_initial)"


definition maintenance_message :: PharmaceuticalWebSocketMessage where
  "maintenance_message =
     \<lparr> ws_type = event_type_value SYSTEM_MAINTENANCE, ws_payload = ''{}'',
       ws_timestamp = ''2025-09-19T00:00:00.000Z'', ws_userId = None, ws_tenantId = None,
       ws_dgdaContext = None, ws_auditTrail = None \<rparr>"

section \<open>Cache store: data model\<close>

datatype CacheStrategy =
  Strategy_PERSISTENT | Strategy_DYNAMIC | Strategy_CRITICAL | Strategy_REALTIME
  | Strategy_TEMPORARY

datatype CachePriority = Cache_LOW | Cache_MEDIUM | Cache_HIGH | Cache_CRITICAL

fun cache_priority_value :: "CachePriority \<Rightarrow> nat" where
  "cache_priority_value Cache_LOW = 1"
| "cache_priority_value Cache_MEDIUM = 2"
| "cache_priority_value Cache_HIGH = 3"
| "cache_priority_value Cache_CRITICAL = 4"

datatype InvalidationTrigger =
  TIME_BASED | EVENT_BASED | MANUAL | DEPENDENCY_CHANGE | DATA_MUTATION

text \<open>
  Cached data is the text \<open>JSON.stringify(data)\<close> gives, as its UTF-16 code units (what
  \<open>charCodeAt\<close> reads). Data for which \<open>JSON.stringify\<close> gives no string (\<open>undefined\<close>,
  a function) is outside the model.
\<close>

type_synonym json_text = "16 word list"

record CacheMetadata =
  m_strategy :: CacheStrategy
  m_priority :: CachePriority
  m_createdAt :: int
  lastAccessed :: int
  accessCount :: nat
  expiryTime :: "int option"
  invalidationTriggers :: "InvalidationTrigger list"
  m_dependencies :: "string list"
  m_size :: int
  checksum :: "string option"
  m_dgdaContext :: "string option"

record CacheEntry =
  key :: string
  entry_data :: json_text
  metadata :: CacheMetadata
  tags :: "string list"

record CacheMetrics =
  hitCount :: nat
  missCount :: nat
  evictionCount :: nat
  totalRequests :: nat
  averageResponseTime :: int
  memoryUsage :: int
  metrics_maxMemoryUsage :: int
  lastOptimization :: "int option"

record StrategyConfig =
  defaultTTL :: int
  maxSize :: int
  sc_priority :: CachePriority
  sc_persistToDisk :: bool

record CacheConfig =
  maxMemoryUsage :: int
  maxEntries :: nat
  cfg_defaultTTL :: int
  cleanupInterval :: int
  persistToDisk :: bool
  compressionEnabled :: bool
  integrityCheckEnabled :: bool
  strategies :: "CacheStrategy \<Rightarrow> StrategyConfig"

text \<open>
  \<open>entries\<close> is the object \<open>{ [key: string]: CacheEntry }\<close> as the list of its properties in
  enumeration order: assigning to an existing key keeps its place, a new key goes to the
  end (keys that look like array indices, which JavaScript enumerates first, are not
  distinguished).
\<close>

record CacheState =
  entries :: "(string \<times> CacheEntry) list"
  metrics :: CacheMetrics
  config :: CacheConfig
  isOptimizing :: bool
  lastCleanup :: "int option"
  pendingInvalidations :: "string list"
  backgroundSyncQueue :: "string list"

fun default_strategies :: "CacheStrategy \<Rightarrow> StrategyConfig" where
  "default_strategies Strategy_PERSISTENT =
     \<lparr> defaultTTL = 86400, maxSize = 1024 * 1024, sc_priority = Cache_HIGH,
       sc_persistToDisk = True \<rparr>"
| "default_strategies Strategy_DYNAMIC =
     \<lparr> defaultTTL = 1800, maxSize = 512 * 1024, sc_priority = Cache_MEDIUM,
       sc_persistToDisk = False \<rparr>"
| "default_strategies Strategy_CRITICAL =
     \<lparr> defaultTTL = 43200, maxSize = 2 * 1024 * 1024, sc_priority = Cache_CRITICAL,
       sc_persistToDisk = True \<rparr>"
| "default_strategies Strategy_REALTIME =
     \<lparr> defaultTTL = 60, maxSize = 256 * 1024, sc_priority = Cache_LOW,
       sc_persistToDisk = False \<rparr>"
| "default_strategies Strategy_TEMPORARY =
     \<lparr> defaultTTL = 300, maxSize = 128 * 1024, sc_priority = Cache_LOW,
       sc_persistToDisk = False \<rparr>"

definition defaultConfig :: CacheConfig where
  "defaultConfig =
     \<lparr> maxMemoryUsage = 50 * 1024 * 1024, maxEntries = 10000, cfg_defaultTTL = 3600,
       cleanupInterval = 300, persistToDisk = True, compressionEnabled = True,
       integrityCheckEnabled = True, strategies = default_strategies \<rparr>"

definition cache_initialState :: CacheState where
  "cache_initialState =
     \<lparr> entries = [],
       metrics = \<lparr> hitCount = 0, missCount = 0, evictionCount = 0, totalRequests = 0,
                   averageResponseTime = 0, memoryUsage = 0,
                   metrics_maxMemoryUsage = maxMemoryUsage defaultConfig,
                   lastOptimization = None \<rparr>,
       config = defaultConfig, isOptimizing = False, lastCleanup = None,
       pendingInvalidations = [], backgroundSyncQueue = [] \<rparr>"

section \<open>Cache store: size and checksum\<close>

text \<open>
  The size of \<open>new Blob([text])\<close>: the length of the UTF-8 encoding, a surrogate pair
  taking four bytes and a lone surrogate three (it is replaced by U+FFFD).
\<close>

fun utf8_length :: "json_text \<Rightarrow> nat" where
  "utf8_length [] = 0"
| "utf8_length [c] = (if c < 0x80 then 1 else if c < 0x800 then 2 else 3)"
| "utf8_length (c # d # cs) =
     (if c < 0x80 then 1 + utf8_length (d # cs)
      else if c < 0x800 then 2 + utf8_length (d # cs)
      else if 0xD800 \<le> c \<and> c \<le> 0xDBFF \<and> 0xDC00 \<le> d \<and> d \<le> 0xDFFF
      then 4 + utf8_length cs
      else 3 + utf8_length (d # cs))"

text \<open>
  \<open>calculateDataSize\<close>. \<open>blob\<close> says whether \<open>new Blob\<close> works on the platform; the
  \<open>catch\<close> estimates two bytes for each code unit.
\<close>

definition calculateDataSize :: "bool \<Rightarrow> json_text \<Rightarrow> int" where
  "calculateDataSize blob text =
     (if blob then int (utf8_length text) else int (length text) * 2)"

text \<open>
  \<open>generateChecksum\<close>. \<open>hash << 5\<close> and \<open>hash & hash\<close> work on 32-bit integers, so the
  hash is a 32-bit word, read as signed by \<open>toString(36)\<close>.
\<close>

definition hash_step :: "32 word \<Rightarrow> 16 word \<Rightarrow> 32 word" where
  "hash_step hash ch = (push_bit 5 hash - hash) + ucast ch"

definition digit36 :: "nat \<Rightarrow> char" where
  "digit36 d = ''0123456789abcdefghijklmnopqrstuvwxyz'' ! d"

fun show_nat36 :: "nat \<Rightarrow> string" where
  "show_nat36 n =
     (if n < 36 then [digit36 n] else show_nat36 (n div 36) @ [digit36 (n mod 36)])"

declare show_nat36.simps [simp del]

definition toString36 :: "int \<Rightarrow> string" where
  "toString36 i = (if i < 0 then CHR ''-'' # show_nat36 (nat (- i)) else show_nat36 (nat i))"

definition generateChecksum :: "json_text \<Rightarrow> string" where
  "generateChecksum text = toString36 (sint (foldl hash_step 0 text))"

section \<open>Cache store: reducers\<close>

record SetCachePayload =
  sp_key :: string
  sp_data :: json_text
  sp_strategy :: CacheStrategy
  sp_ttl :: "int option"
  sp_tags :: "string list option"
  sp_dependencies :: "string list option"
  sp_dgdaContext :: "string option"

text \<open>\<open>state.entries[key] = entry\<close> and \<open>delete state.entries[key]\<close>.\<close>

fun assign_entry :: "string \<Rightarrow> CacheEntry \<Rightarrow> (string \<times> CacheEntry) list \<Rightarrow> (string \<times> CacheEntry) list" where
  "assign_entry k e [] = [(k, e)]"
| "assign_entry k e (p # ps) = (if fst p = k then (k, e) # ps else p # assign_entry k e ps)"

definition delete_entry :: "string \<Rightarrow> (string \<times> CacheEntry) list \<Rightarrow> (string \<times> CacheEntry) list" where
  "delete_entry k es = filter (\<lambda>p. fst p \<noteq> k) es"

text \<open>
  \<open>setCacheEntry\<close>. \<open>ttl || strategyConfig.defaultTTL\<close> takes the default for a missing
  and for a zero \<open>ttl\<close>. The thresholds \<open>maxMemoryUsage * 0.8\<close> and \<open>maxMemoryUsage * 0.7\<close>
  are computed over the rationals.
\<close>

definition setCacheEntry :: "bool \<Rightarrow> int \<Rightarrow> SetCachePayload \<Rightarrow> CacheState \<Rightarrow> CacheState" where
  "setCacheEntry blob now p state =
     (let strategyConfig = strategies (config state) (sp_strategy p);
          finalTTL = (case sp_ttl p of None \<Rightarrow> defaultTTL strategyConfig
                      | Some t \<Rightarrow> if t = 0 then defaultTTL strategyConfig else t);
          meta = \<lparr> m_strategy = sp_strategy p, m_priority = sc_priority strategyConfig,
                   m_createdAt = now, lastAccessed = now, accessCount = 1,
                   expiryTime = Some (now + finalTTL * 1000),
                   invalidationTriggers = [TIME_BASED],
                   m_dependencies = (case sp_dependencies p of None \<Rightarrow> [] | Some ds \<Rightarrow> ds),
                   m_size = calculateDataSize blob (sp_data p),
                   checksum = (if integrityCheckEnabled (config state)
                               then Some (generateChecksum (sp_data p)) else None),
                   m_dgdaContext = sp_dgdaContext p \<rparr>
      in if m_size meta > maxSize strategyConfig then state
         else (let entry = \<lparr> key = sp_key p, entry_data = sp_data p, metadata = meta,
                              tags = (case sp_tags p of None \<Rightarrow> [] | Some ts \<Rightarrow> ts) \<rparr>;
                   state1 = state\<lparr>entries := assign_entry (sp_key p) entry (entries state),
                                  metrics := (metrics state)\<lparr>memoryUsage :=
                                     memoryUsage (metrics state) + m_size meta\<rparr>\<rparr>
               in if rat_of_int (memoryUsage (metrics state1))
                       > rat_of_int (maxMemoryUsage (config state1)) * (8 / 10)
                  then state1\<lparr>pendingInvalidations :=
                          pendingInvalidations state1 @ [''memory_pressure_cleanup'']\<rparr>
                  else state1))"

definition is_expired :: "int \<Rightarrow> CacheEntry \<Rightarrow> bool" where
  "is_expired now entry =
     (case expiryTime (metadata entry) of None \<Rightarrow> False | Some t \<Rightarrow> now > t)"

definition accessCacheEntry :: "int \<Rightarrow> string \<Rightarrow> CacheState \<Rightarrow> CacheState" where
  "accessCacheEntry now k state =
     (let state1 = state\<lparr>metrics := (metrics state)\<lparr>totalRequests :=
                       totalRequests (metrics state) + 1\<rparr>\<rparr>
      in case map_of (entries state1) k of
           None \<Rightarrow> state1\<lparr>metrics := (metrics state1)\<lparr>missCount :=
                       missCount (metrics state1) + 1\<rparr>\<rparr>
         | Some entry \<Rightarrow>
             if is_expired now entry
             then state1\<lparr>entries := delete_entry k (entries state1),
                         metrics := (metrics state1)\<lparr>
                           memoryUsage := memoryUsage (metrics state1) - m_size (metadata entry),
                           missCount := missCount (metrics state1) + 1\<rparr>\<rparr>
             else state1\<lparr>entries := assign_entry k
                           (entry\<lparr>metadata := (metadata entry)\<lparr>lastAccessed := now,
                               accessCount := accessCount (metadata entry) + 1\<rparr>\<rparr>)
                           (entries state1),
                         metrics := (metrics state1)\<lparr>hitCount :=
                           hitCount (metrics state1) + 1\<rparr>\<rparr>)"

definition invalidateCacheEntry :: "string \<Rightarrow> CacheState \<Rightarrow> CacheState" where
  "invalidateCacheEntry k state =
     (case map_of (entries state) k of
        None \<Rightarrow> state
      | Some entry \<Rightarrow>
          (let state1 = state\<lparr>metrics := (metrics state)\<lparr>
                            memoryUsage := memoryUsage (metrics state) - m_size (metadata entry),
                            evictionCount := evictionCount (metrics state) + 1\<rparr>,
                          entries := delete_entry k (entries state)\<rparr>
           in state1\<lparr>pendingInvalidations := pendingInvalidations state1 @
                 map key (filter (\<lambda>dependentEntry. k \<in> set (m_dependencies (metadata dependentEntry)))
                            (map snd (entries state1)))\<rparr>))"

section \<open>Cache store: the service\<close>


text \<open>\<open>set\<close> with its default strategy left to the caller.\<close>

definition set_cache :: "bool \<Rightarrow> int \<Rightarrow> SetCachePayload \<Rightarrow> CacheState \<Rightarrow> CacheState" where
  "set_cache blob now p state = setCacheEntry blob now p state"

text \<open>The sum of the sizes of the entries in the store.\<close>

definition stored_size :: "CacheState \<Rightarrow> int" where
  "stored_size state = sum_list (map (\<lambda>p. m_size (metadata (snd p))) (entries state))"



text \<open>Two writes to the same key, of one byte and then of two bytes.\<close>

definition first_write :: SetCachePayload where
  "first_write =
     \<lparr> sp_key = ''k'', sp_data = [0x31], sp_strategy = Strategy_DYNAMIC, sp_ttl = None,
       sp_tags = None, sp_dependencies = None, sp_dgdaContext = None \<rparr>"

definition second_write :: SetCachePayload where
  "second_write = first_write\<lparr>sp_data := [0x32, 0x32]\<rparr>"


definition overwritten_cache :: CacheState where
  "overwritten_cache =
     set_cache True 2 second_write (set_cache True 1 first_write cache_initialState)"

section \<open>Cache store: the eviction pass\<close>

text \<open>
  The values a JavaScript number takes in the score \<open>accessCount / (Date.now() - lastAccessed)\<close>
  and in the difference of two scores: a quotient (kept exact, as a rational), an
  infinity where the divisor is zero, or \<open>NaN\<close>.
\<close>

datatype jsnum = NaN | NegInf | Fin rat | PosInf

definition js_div :: "int \<Rightarrow> int \<Rightarrow> jsnum" where
  "js_div a b =
     (if b = 0 then (if a = 0 then NaN else if 0 < a then PosInf else NegInf)
      else Fin (rat_of_int a / rat_of_int b))"

fun js_sub :: "jsnum \<Rightarrow> jsnum \<Rightarrow> jsnum" where
  "js_sub NaN y = NaN"
| "js_sub x NaN = NaN"
| "js_sub (Fin a) (Fin b) = Fin (a - b)"
| "js_sub (Fin a) PosInf = NegInf"
| "js_sub (Fin a) NegInf = PosInf"
| "js_sub PosInf PosInf = NaN"
| "js_sub PosInf y = PosInf"
| "js_sub NegInf NegInf = NaN"
| "js_sub NegInf y = NegInf"

text \<open>
  How \<open>Array.prototype.sort\<close> reads the number a comparator returns: negative, positive,
  or zero, \<open>NaN\<close> counting as zero.
\<close>

fun js_sign :: "jsnum \<Rightarrow> int" where
  "js_sign NaN = 0"
| "js_sign NegInf = - 1"
| "js_sign PosInf = 1"
| "js_sign (Fin r) = (if r < 0 then - 1 else if 0 < r then 1 else 0)"


definition score :: "int \<Rightarrow> CacheEntry \<Rightarrow> jsnum" where
  "score now e = js_div (int (accessCount (metadata e))) (now - lastAccessed (metadata e))"

definition is_critical :: "CacheEntry \<Rightarrow> bool" where
  "is_critical e = (m_priority (metadata e) = Cache_CRITICAL)"

text \<open>The comparator handed to \<open>sort\<close> in \<open>optimizeCache\<close>, one clock reading for the pass.\<close>

definition evict_cmp :: "int \<Rightarrow> CacheEntry \<Rightarrow> CacheEntry \<Rightarrow> int" where
  "evict_cmp now a b =
     (if is_critical a then 1
      else if is_critical b then - 1
      else js_sign (js_sub (score now a) (score now b)))"

text \<open>
  The loop \<open>for (const entry of entries)\<close>: \<open>break\<close> at or below the target, \<open>continue\<close>
  on a CRITICAL entry, otherwise evict. The pair is \<open>currentMemory\<close> and the state.
\<close>

fun evict_loop :: "rat \<Rightarrow> CacheEntry list \<Rightarrow> int \<times> CacheState \<Rightarrow> int \<times> CacheState" where
  "evict_loop targetMemory [] (currentMemory, state) = (currentMemory, state)"
| "evict_loop targetMemory (entry # rest) (currentMemory, state) =
     (if rat_of_int currentMemory \<le> targetMemory then (currentMemory, state)
      else if is_critical entry then evict_loop targetMemory rest (currentMemory, state)
      else evict_loop targetMemory rest
             (currentMemory - m_size (metadata entry),
              state\<lparr>metrics := (metrics state)\<lparr>evictionCount :=
                        evictionCount (metrics state) + 1\<rparr>,
                    entries := delete_entry (key entry) (entries state)\<rparr>))"

definition optimizeCache :: "int \<Rightarrow> CacheState \<Rightarrow> CacheState" where
  "optimizeCache now state =
     (if memoryUsage (metrics state) \<le> maxMemoryUsage (config state) then state
      else (let sorted = sort_by (evict_cmp now) (map snd (entries state));
                targetMemory = rat_of_int (maxMemoryUsage (config state)) * (7 / 10)
            in case evict_loop targetMemory sorted
                      (memoryUsage (metrics state), state\<lparr>isOptimizing := True\<rparr>) of
                 (currentMemory, state1) \<Rightarrow>
                   state1\<lparr>metrics := (metrics state1)\<lparr>memoryUsage := currentMemory,
                              lastOptimization := Some now\<rparr>,
                          isOptimizing := False\<rparr>))"





text \<open>
  A store as the reducers build it: each entry is filed under its own key, no key twice,
  and every entry has been accessed at least once (\<open>setCacheEntry\<close> starts the count at 1).
\<close>

definition well_formed_store :: "CacheState \<Rightarrow> bool" where
  "well_formed_store state =
     (distinct (map fst (entries state))
      \<and> list_all (\<lambda>p. key (snd p) = fst p \<and> 0 < accessCount (metadata (snd p))) (entries state))"




section \<open>Strings: facts\<close>

lemma startsWith_prefix: "startsWith s p \<longleftrightarrow> prefix p s"
  by (induction s p rule: startsWith.induct) auto

lemma includes_sublist: "includes_str s p \<longleftrightarrow> sublist p s"
  by (induction s) (auto simp: startsWith_prefix sublist_Cons_right)

section \<open>Offline queue: priority\<close>

lemma type_value_no_upper_case:
  "\<not> includes_str (operation_type_value t) ''DGDA''"
  "\<not> includes_str (operation_type_value t) ''CUSTOMER''"
  "\<not> includes_str (operation_type_value t) ''ANALYTICS''"
  "\<not> includes_str (operation_type_value t) ''METRICS''"
  by (cases t; simp)+

lemma calculatePriority_eq:
  "calculatePriority t ctx = (if compliance_flag ctx then Op_CRITICAL else Op_MEDIUM)"
  by (simp add: calculatePriority_def type_value_no_upper_case)

text \<open>
  Claim C1. The claim: a DGDA type or a compliance-required operation gets CRITICAL, a
  customer-management type HIGH, an analytics or metrics type LOW, every other type MEDIUM.
  The code compares the lower-case run-time strings of the enum with upper-case needles,
  so no type test ever succeeds: without the compliance flag, the operation that
  \<open>addToQueue\<close> inserts for \<open>CREATE_DGDA_SUBMISSION\<close>, \<open>CREATE_CUSTOMER\<close> and
  \<open>SYNC_ANALYTICS_DATA\<close> has priority MEDIUM each time.
\<close>

theorem C1_priority_ignores_type:
  "calculatePriority CREATE_DGDA_SUBMISSION None = Op_MEDIUM
   \<and> calculatePriority CREATE_CUSTOMER None = Op_MEDIUM
   \<and> calculatePriority SYNC_ANALYTICS_DATA None = Op_MEDIUM
   \<and> map priority (items (addToQueue ''queue_1_a'' 1
        \<lparr> p_type = CREATE_DGDA_SUBMISSION, p_data = ''{}'', p_endpoint = ''/api/v1/dgda'',
          p_method = POST, p_headers = None, p_dependencies = None, p_dgdaContext = None,
          p_auditTrail = None \<rparr> queue_initialState)) = [Op_MEDIUM]"
  by (simp add: calculatePriority_eq compliance_flag_def addToQueue_def new_queue_item_def
      queue_initialState_def)

section \<open>Offline queue: statistics\<close>

lemma length_filter_split:
  "length xs = length (filter P xs) + length (filter (\<lambda>x. \<not> P x) xs)"
  by (induction xs) auto

text \<open>
  Claim C10. \<open>pendingItems\<close> is the number of live operations whose \<open>attemptCount\<close> is 0,
  \<open>totalItems\<close> the number of all live operations, so the operations that have been
  attempted and are still queued make up the difference.
\<close>

theorem C10_pending_counts_unattempted:
  "pendingItems (getQueueStats state) = length (filter (\<lambda>item. attemptCount item = 0) (items state))
   \<and> totalItems (getQueueStats state) = length (items state)
   \<and> totalItems (getQueueStats state) =
       pendingItems (getQueueStats state)
       + length (filter (\<lambda>item. attemptCount item \<noteq> 0) (items state))"
  using length_filter_split [of "items state" "\<lambda>item. attemptCount item = 0"]
  by (simp add: getQueueStats_def)

section \<open>Offline queue: the retry bound\<close>

lemma item_id_apply_update [simp]: "item_id (apply_update u z) = item_id z"
  by (simp add: apply_update_def Let_def split: option.splits)




lemma items_setSyncStatus [simp]: "items (setSyncStatus now st s) = items s"
  by (simp add: setSyncStatus_def Let_def)

lemma dataIntegrity_setSyncStatus [simp]: "dataIntegrity (setSyncStatus now st s) = dataIntegrity s"
  by (simp add: setSyncStatus_def Let_def)

lemma maxConnectionRetries_setSyncStatus [simp]:
  "maxConnectionRetries (setSyncStatus now st s) = maxConnectionRetries s"
  by (simp add: setSyncStatus_def Let_def)





lemma process_item_maxConnectionRetries [simp]:
  "maxConnectionRetries (process_item env y s) = maxConnectionRetries s"
  by (auto simp: process_item_def processQueueItem_def removeFromQueue_def
      updateQueueItem_def markAsCorrupted_def addConflict_def Let_def
      split: FetchResult.splits option.splits ErrorData.splits Thrown.splits)











lemma processBatch_maxConnectionRetries [simp]:
  "maxConnectionRetries (processBatch env xs s) = maxConnectionRetries s"
  by (induction xs arbitrary: s) auto













section \<open>Realtime channel: subscriptions\<close>

lemma fold_dispatch:
  "fold (\<lambda>ch. dispatch (f ch)) chs c = c\<lparr>slice := fold f chs (slice c)\<rparr>"
  by (induction chs arbitrary: c) (auto simp: dispatch_def)

lemma subscriptions_fold_added:
  "set (subscriptions (fold subscriptionAdded chs st)) = set (subscriptions st) \<union> set chs"
  by (induction chs arbitrary: st) (auto simp: subscriptionAdded_def)

lemma subscriptions_fold_removed:
  "subscriptions (fold subscriptionRemoved chs st) = filter (\<lambda>sub. sub \<notin> set chs) (subscriptions st)"
  by (induction chs arbitrary: st) (auto simp: subscriptionRemoved_def conj_commute)

text \<open>
  Claim C3, as stated, fails: with the transport not open, \<open>subscribe\<close> does not add the
  channel to the local subscription set, and \<open>unsubscribe\<close> does not remove it.
\<close>

theorem C3_counterexample:
  "ws channel_initial \<noteq> Some RS_OPEN
   \<and> ''dgda'' \<notin> set (subscriptions (slice (subscribe [''dgda''] channel_initial)))
   \<and> ws (ws_close_event 1000 [] (subscribe [''dgda''] open_channel)) \<noteq> Some RS_OPEN
   \<and> ''dgda'' \<in> set (subscriptions (slice
        (unsubscribe [''dgda''] (ws_close_event 1000 [] (subscribe [''dgda''] open_channel)))))"
  by (simp add: channel_initial_def subscribe_def unsubscribe_def open_channel_def
      ws_open_event_def ws_close_event_def connect_def handleOpen_def handleClose_def
      dispatch_def send_def startHeartbeat_def stopHeartbeat_def connectionStarted_def
      connectionEstablished_def connectionLost_def subscriptionAdded_def ws_initialState_def
      Let_def)

text \<open>
  Claim C3, amended. \<open>subscribe(channels)\<close> and \<open>unsubscribe(channels)\<close> act only when the
  transport is open: then the control message is sent and the channels are added to, or
  removed from, the local subscription set. When the transport is not open the call
  changes nothing, neither the messages sent nor the local subscription set.
\<close>

theorem C3_subscriptions_follow_transport:
  "(ws c = Some RS_OPEN \<longrightarrow>
      set (subscriptions (slice (subscribe channels c))) = set (subscriptions (slice c)) \<union> set channels
      \<and> sent (subscribe channels c) = sent c @ [Subscribe channels]
      \<and> set (subscriptions (slice (unsubscribe channels c))) = set (subscriptions (slice c)) - set channels
      \<and> sent (unsubscribe channels c) = sent c @ [Unsubscribe channels])
   \<and> (ws c \<noteq> Some RS_OPEN \<longrightarrow> subscribe channels c = c \<and> unsubscribe channels c = c)"
  by (auto simp: subscribe_def unsubscribe_def fold_dispatch send_def subscriptions_fold_added
      subscriptions_fold_removed)

theorem C3_subscriptions_follow_transport_witness:
  "ws open_channel = Some RS_OPEN
   \<and> set (subscriptions (slice (subscribe [''dgda''] open_channel))) = {''dgda''}
   \<and> sent (subscribe [''dgda''] open_channel) = [Subscribe [''dgda'']]
   \<and> ws channel_initial \<noteq> Some RS_OPEN
   \<and> subscribe [''dgda''] channel_initial = channel_initial
   \<and> unsubscribe [''dgda''] channel_initial = channel_initial"
proof -
  have o: "ws open_channel = Some RS_OPEN" "subscriptions (slice open_channel) = []"
    "sent open_channel = []"
    by (simp_all add: open_channel_def ws_open_event_def connect_def handleOpen_def
        dispatch_def startHeartbeat_def connectionStarted_def connectionEstablished_def
        channel_initial_def ws_initialState_def Let_def)
  have i: "ws channel_initial \<noteq> Some RS_OPEN" by (simp add: channel_initial_def)
  from C3_subscriptions_follow_transport [of open_channel "[''dgda'']"]
       C3_subscriptions_follow_transport [of channel_initial "[''dgda'']"] o i
  show ?thesis by simp
qed

section \<open>Realtime channel: the event log\<close>

lemma eventReceived_events:
  "events (eventReceived m st) = take 100 (m # events st)"
  by (simp add: eventReceived_def Let_def)

lemma eventReceived_cap: "length (events (eventReceived m st)) \<le> 100"
  by (simp add: eventReceived_events)

lemma handleMessage_handled:
  "t \<in> set handled_event_types \<Longrightarrow> ws_type m = event_type_value t \<Longrightarrow>
   events (slice (handleMessage (Some m) c)) = take 100 (m # events (slice c))"
  by (simp add: handleMessage_def dispatch_def eventReceived_events)

lemma handleMessage_not_handled:
  "t \<notin> set handled_event_types \<Longrightarrow> ws_type m = event_type_value t \<Longrightarrow>
   handleMessage (Some m) c = c"
  by (cases t) (simp_all add: handleMessage_def handled_event_types_def)

lemma handleMessage_unknown:
  "ws_type m \<notin> range event_type_value \<Longrightarrow> handleMessage (Some m) c = c"
  by (auto simp: handleMessage_def)

text \<open>
  Claim C7. The claim: a message whose type tag is a member of the event-type enum is
  prepended to the event log. The \<open>switch\<close> of \<open>handleMessage\<close> lists eight of the thirteen
  members; a \<open>system_maintenance\<close> message, a member of the enum, takes the default branch
  and leaves the channel, and its event log, as they were.
\<close>

theorem C7_enum_member_dropped:
  "ws_type maintenance_message = event_type_value SYSTEM_MAINTENANCE
   \<and> handleMessage (Some maintenance_message) open_channel = open_channel
   \<and> events (slice (handleMessage (Some maintenance_message) open_channel)) = []"
  by (simp add: handleMessage_def handled_event_types_def maintenance_message_def
      open_channel_def ws_open_event_def connect_def handleOpen_def
        dispatch_def startHeartbeat_def connectionStarted_def connectionEstablished_def
        channel_initial_def ws_initialState_def Let_def)

section \<open>Realtime channel: reconnection\<close>





section \<open>Cache store: size rejection\<close>








section \<open>Cache store: integrity check on read\<close>





section \<open>Cache store: memory accounting\<close>

text \<open>
  Claim C5. The claim: after every \<open>set\<close> the memory-usage metric is the sum of the sizes
  of the entries in the store, also when the \<open>set\<close> overwrites a key. Writing one byte and
  then two bytes under the same key leaves one entry of size 2 and a memory usage of 3:
  \<open>setCacheEntry\<close> adds the new size without taking off the size of the entry it replaces.
\<close>

theorem C5_overwrite_counts_twice:
  "map fst (entries overwritten_cache) = [''k'']
   \<and> stored_size overwritten_cache = 2
   \<and> memoryUsage (metrics overwritten_cache) = 3"
  by (simp add: overwritten_cache_def set_cache_def setCacheEntry_def first_write_def
      second_write_def cache_initialState_def defaultConfig_def calculateDataSize_def
      stored_size_def Let_def)

lemma delete_entry_absent: "k \<notin> fst ` set es \<Longrightarrow> delete_entry k es = es"
  by (induction es) (auto simp: delete_entry_def)

lemma delete_entry_Cons:
  "delete_entry k (p # ps) = (if fst p = k then delete_entry k ps else p # delete_entry k ps)"
  by (simp add: delete_entry_def)

lemma stored_size_delete:
  "distinct (map fst es) \<Longrightarrow> map_of es k = Some e \<Longrightarrow>
   sum_list (map (\<lambda>p. m_size (metadata (snd p))) (delete_entry k es))
   = sum_list (map (\<lambda>p. m_size (metadata (snd p))) es) - m_size (metadata e)"
proof (induction es)
  case Nil
  then show ?case by simp
next
  case (Cons p ps)
  show ?case
  proof (cases "fst p = k")
    case True
    with Cons.prems have "k \<notin> fst ` set ps" and "snd p = e" by auto
    with True show ?thesis by (simp add: delete_entry_Cons delete_entry_absent)
  next
    case False
    with Cons show ?thesis by (simp add: delete_entry_Cons)
  qed
qed

lemma stored_size_assign:
  "sum_list (map (\<lambda>p. m_size (metadata (snd p))) (assign_entry k e es))
   = sum_list (map (\<lambda>p. m_size (metadata (snd p))) es) + m_size (metadata e)
     - (case map_of es k of None \<Rightarrow> 0 | Some old \<Rightarrow> m_size (metadata old))"
  by (induction es) auto

lemma invalidateCacheEntry_keeps_balance:
  "distinct (map fst (entries state)) \<Longrightarrow>
   memoryUsage (metrics (invalidateCacheEntry k state)) - stored_size (invalidateCacheEntry k state)
   = memoryUsage (metrics state) - stored_size state"
  by (auto simp: invalidateCacheEntry_def stored_size_def Let_def stored_size_delete
      split: option.splits)

lemma setCacheEntry_balance:
  "memoryUsage (metrics (setCacheEntry blob now p state)) - stored_size (setCacheEntry blob now p state)
   = memoryUsage (metrics state) - stored_size state
     + (if calculateDataSize blob (sp_data p) > maxSize (strategies (config state) (sp_strategy p))
        then 0
        else (case map_of (entries state) (sp_key p) of None \<Rightarrow> 0
              | Some old \<Rightarrow> m_size (metadata old)))"
  by (simp add: setCacheEntry_def stored_size_def Let_def stored_size_assign)

section \<open>Cache store: the eviction pass\<close>




















lemma optimizeCache_idle:
  "memoryUsage (metrics state) \<le> maxMemoryUsage (config state) \<Longrightarrow> optimizeCache now state = state"
  by (simp add: optimizeCache_def)






text \<open>The reducers keep the store well formed.\<close>

lemma map_fst_assign_entry:
  "map fst (assign_entry k e es) = (if k \<in> fst ` set es then map fst es else map fst es @ [k])"
  by (induction es) auto

lemma set_assign_entry: "set (assign_entry k e es) \<subseteq> insert (k, e) (set es)"
  by (induction es) auto

lemma well_formed_assign:
  assumes "distinct (map fst es)"
    and "list_all (\<lambda>p. key (snd p) = fst p \<and> 0 < accessCount (metadata (snd p))) es"
    and "key e = k" and "0 < accessCount (metadata e)"
  shows "distinct (map fst (assign_entry k e es))
       \<and> list_all (\<lambda>p. key (snd p) = fst p \<and> 0 < accessCount (metadata (snd p)))
           (assign_entry k e es)"
  using assms set_assign_entry [of k e es]
  by (auto simp: map_fst_assign_entry list_all_iff)

lemma well_formed_delete:
  assumes "distinct (map fst es)"
    and "list_all (\<lambda>p. key (snd p) = fst p \<and> 0 < accessCount (metadata (snd p))) es"
  shows "distinct (map fst (delete_entry k es))
       \<and> list_all (\<lambda>p. key (snd p) = fst p \<and> 0 < accessCount (metadata (snd p)))
           (delete_entry k es)"
  using assms by (auto simp: delete_entry_def distinct_map_filter list_all_iff)

lemma well_formed_initial: "well_formed_store cache_initialState"
  by (simp add: well_formed_store_def cache_initialState_def)

lemma well_formed_setCacheEntry:
  "well_formed_store state \<Longrightarrow> well_formed_store (setCacheEntry blob now p state)"
  using well_formed_assign [of "entries state" _ "sp_key p"]
  by (simp add: well_formed_store_def setCacheEntry_def Let_def)

lemma well_formed_accessCacheEntry:
  assumes "well_formed_store state"
  shows "well_formed_store (accessCacheEntry now k state)"
proof (cases "map_of (entries state) k")
  case None
  with assms show ?thesis by (simp add: well_formed_store_def accessCacheEntry_def Let_def)
next
  case (Some entry)
  then have "(k, entry) \<in> set (entries state)" by (rule map_of_SomeD)
  with assms have "key entry = k" by (auto simp: well_formed_store_def list_all_iff)
  with assms Some show ?thesis
    using well_formed_assign [of "entries state" _ k] well_formed_delete [of "entries state" k]
    by (simp add: well_formed_store_def accessCacheEntry_def Let_def)
qed

lemma well_formed_invalidateCacheEntry:
  "well_formed_store state \<Longrightarrow> well_formed_store (invalidateCacheEntry k state)"
  using well_formed_delete [of "entries state" k]
  by (simp add: well_formed_store_def invalidateCacheEntry_def Let_def split: option.splits)

end
